theory Spec2Isabelle
  imports Main "HOL-Library.Sublist"
begin

section \<open>The lead fetcher of \<^verbatim>\<open>leadgen-bot/src/scripts/twitter_fetcher.py\<close>\<close>

text \<open>
  A shallow embedding of the extraction and filtering pipeline of the fetcher. What the
  program reads from outside (the rendered page, the system clock, the cookie file) is
  data handed to the functions; exceptions of class \<^verbatim>\<open>Exception\<close> are values of
  type \<open>exn\<close>; the log on stderr and the documents printed on stdout are returned.
  Writing to stdout and stderr and sleeping are taken not to raise.
\<close>

subsection \<open>Strings\<close>

text \<open>
  A Python \<^verbatim>\<open>str\<close> is a \<open>string\<close> whose characters are the code points below 256, so
  that \<open>length\<close> is Python's \<^verbatim>\<open>len\<close>. \<^verbatim>\<open>str.lower\<close> maps \<^verbatim>\<open>A-Z\<close> and the
  upper-case letters of Latin-1 (192 to 222 without the multiplication sign 215) to the
  code point 32 above them; \<^verbatim>\<open>str.strip()\<close> removes the white space of
  \<^verbatim>\<open>str.isspace\<close>: 9 to 13, 28 to 32, 133 and 160.
\<close>

definition is_upper :: "char \<Rightarrow> bool" where
  "is_upper c =
     (let n = (of_char c :: nat)
      in (65 \<le> n \<and> n \<le> 90) \<or> (192 \<le> n \<and> n \<le> 222 \<and> n \<noteq> 215))"

definition lower_char :: "char \<Rightarrow> char" where
  "lower_char c = (if is_upper c then char_of ((of_char c :: nat) + 32) else c)"

definition lower :: "string \<Rightarrow> string" where
  "lower s = map lower_char s"

definition isspace :: "char \<Rightarrow> bool" where
  "isspace c =
     (let n = (of_char c :: nat)
      in (9 \<le> n \<and> n \<le> 13) \<or> (28 \<le> n \<and> n \<le> 32) \<or> n = 133 \<or> n = 160)"

definition strip_chars :: "(char \<Rightarrow> bool) \<Rightarrow> string \<Rightarrow> string" where
  "strip_chars p s = rev (dropWhile p (rev (dropWhile p s)))"

definition strip :: "string \<Rightarrow> string" where
  "strip s = strip_chars isspace s"

text \<open>
  \<^verbatim>\<open>s.split(sep)\<close> for a separator that is not empty (each separator of the program is
  a literal): the text is cut at the occurrences of \<open>sep\<close> found from the left, an
  occurrence starting where the one before ended at the earliest. The list is never
  empty (\<open>py_split_not_Nil\<close>), so \<^verbatim>\<open>[0]\<close> is \<open>hd\<close> and \<^verbatim>\<open>[-1]\<close> is \<open>last\<close>.
\<close>

function py_split :: "string \<Rightarrow> string \<Rightarrow> string list" where
  "py_split sep [] = [[]]"
| "py_split sep (c # cs) =
     (if sep \<noteq> [] \<and> prefix sep (c # cs)
      then [] # py_split sep (drop (length sep) (c # cs))
      else (case py_split sep cs of
              [] \<Rightarrow> [[c]]
            | p # ps \<Rightarrow> (c # p) # ps))"
  by pat_completeness auto
termination
  by (relation "measure (\<lambda>(sep, s). length s)") auto

text \<open>\<^verbatim>\<open>s.replace('Z', '+00:00')\<close>: every \<^verbatim>\<open>Z\<close> becomes the six characters.\<close>

definition replace_Z :: "string \<Rightarrow> string" where
  "replace_Z s = concat (map (\<lambda>c. if c = CHR ''Z'' then ''+00:00'' else [c]) s)"

subsection \<open>The negative filters\<close>

definition NEGATIVE_FILTERS :: "string list" where
  "NEGATIVE_FILTERS =
     [''[for hire]'', ''i am a developer'', ''i'm a developer'', ''i am available'',
      ''my portfolio'', ''hire me'', ''looking for work'', ''seeking work'',
      ''offering my services'', ''available for hire'', ''developer looking for'',
      ''open to work'']"

text \<open>
  \<^verbatim>\<open>matches_negative_filters\<close> (lines 72 to 75), with the list it reads from the module
  as an argument. \<^verbatim>\<open>a in b\<close> on strings is \<open>sublist a b\<close>.
\<close>

definition matches_negative_filters :: "string list \<Rightarrow> string \<Rightarrow> bool" where
  "matches_negative_filters filters text =
     (let text_lower = lower text
      in list_ex (\<lambda>f. sublist (lower f) text_lower) filters)"

text \<open>
  The specification's words, for comparison: an entry occurs in the text as a substring,
  letter case ignored, when some stretch of the text is the entry up to letter case.
\<close>

definition occurs_ignoring_case :: "string \<Rightarrow> string \<Rightarrow> bool" where
  "occurs_ignoring_case entry text =
     (\<exists>pre mid post. text = pre @ mid @ post \<and> lower mid = lower entry)"

subsection \<open>Exceptions\<close>

text \<open>
  An exception is its class, as far as a handler of the program tells classes apart, and
  its message. \<open>OtherException\<close> is any other subclass of \<^verbatim>\<open>Exception\<close> (the page
  driver's errors and timeouts among them). What is not an \<^verbatim>\<open>Exception\<close>
  (\<^verbatim>\<open>KeyboardInterrupt\<close>, \<^verbatim>\<open>SystemExit\<close>) is not a failure of the run and has no
  value here.
\<close>

datatype exn =
    OverflowError string
  | TypeError string
  | FileNotFoundError string
  | JSONDecodeError string
  | ValueError string
  | OtherException string

subsection \<open>Dates and the freshness window\<close>

text \<open>
  A \<^verbatim>\<open>datetime\<close> is its wall-clock reading in microseconds since 0001-01-01T00:00:00
  and, when it is aware, its offset from UTC in microseconds. The type holds the years 1
  to 9999: the readings from 0 up to \<open>MAX_US\<close> (3652059 days). The system clock is the
  instant in UTC and the local offset; \<^verbatim>\<open>datetime.now(tz)\<close> reads it in the zone \<open>tz\<close>,
  or as local time without a zone.
\<close>

record datetime =
  wall :: int
  tzoffset :: "int option"

record sysclock =
  utc_now :: int
  local_offset :: int

definition MAX_US :: int where
  "MAX_US = 3652059 * 86400 * 1000000"

definition representable :: "int \<Rightarrow> bool" where
  "representable w = (0 \<le> w \<and> w < MAX_US)"

definition datetime_now :: "sysclock \<Rightarrow> int option \<Rightarrow> datetime" where
  "datetime_now clk tz =
     \<lparr>wall = utc_now clk + (case tz of None \<Rightarrow> local_offset clk | Some off \<Rightarrow> off),
      tzoffset = tz\<rparr>"

text \<open>
  \<^verbatim>\<open>timedelta(hours=h)\<close> in microseconds; its days are \<open>h div 24\<close> and are at most
  999999999 in magnitude.
\<close>

definition timedelta_hours :: "int \<Rightarrow> exn + int" where
  "timedelta_hours h =
     (if \<bar>h div 24\<bar> > 999999999
      then Inl (OverflowError ''days; must have magnitude <= 999999999'')
      else Inr (h * 3600 * 1000000))"

text \<open>\<^verbatim>\<open>d - delta\<close>: the zone is kept, and the result must be a \<^verbatim>\<open>datetime\<close>.\<close>

definition datetime_sub :: "datetime \<Rightarrow> int \<Rightarrow> exn + datetime" where
  "datetime_sub d delta =
     (if representable (wall d - delta)
      then Inr (d\<lparr>wall := wall d - delta\<rparr>)
      else Inl (OverflowError ''date value out of range''))"

text \<open>
  \<^verbatim>\<open>a > b\<close>: wall-clock readings when neither has a zone, instants when both have one,
  and a \<^verbatim>\<open>TypeError\<close> otherwise.
\<close>

definition datetime_gt :: "datetime \<Rightarrow> datetime \<Rightarrow> exn + bool" where
  "datetime_gt a b =
     (case (tzoffset a, tzoffset b) of
        (None, None) \<Rightarrow> Inr (wall a > wall b)
      | (Some oa, Some ob) \<Rightarrow> Inr (wall a - oa > wall b - ob)
      | _ \<Rightarrow> Inl (TypeError ''can't compare offset-naive and offset-aware datetimes''))"

text \<open>
  \<^verbatim>\<open>is_fresh\<close> (lines 66 to 69), with \<^verbatim>\<open>MAX_HOURS_OLD\<close> and the clock it reads as
  arguments.
\<close>

definition is_fresh :: "int \<Rightarrow> sysclock \<Rightarrow> datetime \<Rightarrow> exn + bool" where
  "is_fresh max_hours_old clk posted_at =
     (case timedelta_hours max_hours_old of
        Inl e \<Rightarrow> Inl e
      | Inr delta \<Rightarrow>
          (case datetime_sub (datetime_now clk (tzoffset posted_at)) delta of
             Inl e \<Rightarrow> Inl e
           | Inr cutoff \<Rightarrow> datetime_gt posted_at cutoff))"

text \<open>
  The instant of a timestamp, in microseconds since 0001-01-01T00:00:00 UTC: a timestamp
  without a zone is local time.
\<close>

definition utc_instant :: "sysclock \<Rightarrow> datetime \<Rightarrow> int" where
  "utc_instant clk d =
     wall d - (case tzoffset d of None \<Rightarrow> local_offset clk | Some off \<Rightarrow> off)"

definition hours_us :: "int \<Rightarrow> int" where
  "hours_us h = h * 3600000000"

subsection \<open>The page as the driver shows it\<close>

text \<open>
  An element handle is what its methods answer: each method is called at most once on a
  handle with the same arguments, so a function from the arguments to the answer holds
  every run. \<open>Inl e\<close> is the call raising \<open>e\<close>; \<open>Inr None\<close> is no match, or no such
  attribute.
\<close>

datatype element =
  Element (inner_text: "exn + string") (get_attribute: "string \<Rightarrow> exn + string option")

datatype tweet =
  Tweet (query_selector: "string \<Rightarrow> exn + element option")

text \<open>The selector chains of \<^verbatim>\<open>SelectorRegistry\<close> (lines 106 to 128).\<close>

definition TWEET_CONTAINERS :: "string list" where
  \<open>TWEET_CONTAINERS =
     [''article[data-testid="tweet"]'', ''div[data-testid="cellInnerDiv"] article'',
      ''[role="article"]'']\<close>

definition TWEET_TEXT :: "string list" where
  \<open>TWEET_TEXT = [''div[data-testid="tweetText"]'', ''div[lang]'']\<close>

definition AUTHOR :: "string list" where
  \<open>AUTHOR = [''a[role="link"]'', ''div[data-testid="User-Name"] a'']\<close>

definition TIMESTAMP :: "string list" where
  "TIMESTAMP = [''time'', ''[datetime]'']"

definition STATUS_LINK :: string where
  \<open>STATUS_LINK = ''a[href*="/status/"]''\<close>

subsection \<open>The extractor\<close>

text \<open>
  \<^verbatim>\<open>RobustExtractor.extract_text\<close> (lines 138 to 149): the loop over a chain, and the
  method on the chain of the registry. An exception inside the \<^verbatim>\<open>try\<close> goes on with
  the next selector.
\<close>

fun extract_text_loop :: "string list \<Rightarrow> tweet \<Rightarrow> string option" where
  "extract_text_loop [] tweet = None"
| "extract_text_loop (selector # rest) tweet =
     (case query_selector tweet selector of
        Inl e \<Rightarrow> extract_text_loop rest tweet
      | Inr None \<Rightarrow> extract_text_loop rest tweet
      | Inr (Some elem) \<Rightarrow>
          (case inner_text elem of
             Inl e \<Rightarrow> extract_text_loop rest tweet
           | Inr text \<Rightarrow>
               if text \<noteq> [] \<and> length (strip text) > 5 then Some (strip text)
               else extract_text_loop rest tweet))"

definition extract_text :: "tweet \<Rightarrow> string option" where
  "extract_text tweet = extract_text_loop TWEET_TEXT tweet"

text \<open>\<^verbatim>\<open>RobustExtractor.extract_author\<close> (lines 151 to 162).\<close>

fun extract_author_loop :: "string list \<Rightarrow> tweet \<Rightarrow> string" where
  "extract_author_loop [] tweet = ''Unknown''"
| "extract_author_loop (selector # rest) tweet =
     (case query_selector tweet selector of
        Inl e \<Rightarrow> extract_author_loop rest tweet
      | Inr None \<Rightarrow> extract_author_loop rest tweet
      | Inr (Some elem) \<Rightarrow>
          (case get_attribute elem ''href'' of
             Inl e \<Rightarrow> extract_author_loop rest tweet
           | Inr None \<Rightarrow> extract_author_loop rest tweet
           | Inr (Some href) \<Rightarrow>
               if href \<noteq> []
               then hd (py_split ''/'' (strip_chars (\<lambda>c. c = CHR ''/'') href))
               else extract_author_loop rest tweet))"

definition extract_author :: "tweet \<Rightarrow> string" where
  "extract_author tweet = extract_author_loop AUTHOR tweet"

text \<open>
  \<^verbatim>\<open>RobustExtractor.extract_url\<close> (lines 164 to 176): the pair of the source URL and the
  identifier, or \<^verbatim>\<open>(None, None)\<close>.
\<close>

definition extract_url :: "tweet \<Rightarrow> string option \<times> string option" where
  "extract_url tweet =
     (case query_selector tweet STATUS_LINK of
        Inl e \<Rightarrow> (None, None)
      | Inr None \<Rightarrow> (None, None)
      | Inr (Some link_elem) \<Rightarrow>
          (case get_attribute link_elem ''href'' of
             Inl e \<Rightarrow> (None, None)
           | Inr None \<Rightarrow> (None, None)
           | Inr (Some href) \<Rightarrow>
               if href \<noteq> [] \<and> sublist ''/status/'' href
               then
                 (let tweet_id =
                        hd (py_split ''/'' (hd (py_split ''?'' (last (py_split ''/status/'' href)))));
                      source_url = ''https://x.com'' @ href
                  in (Some source_url, Some tweet_id))
               else (None, None)))"

text \<open>
  \<^verbatim>\<open>RobustExtractor.extract_time\<close> (lines 178 to 192). \<^verbatim>\<open>datetime.fromisoformat\<close> is
  the library's parser, an argument here: \<open>None\<close> is its \<^verbatim>\<open>ValueError\<close>. \<open>now\<close> is
  the clock as line 192 would read it.
\<close>

fun extract_time_loop ::
  "(string \<Rightarrow> datetime option) \<Rightarrow> sysclock \<Rightarrow> string list \<Rightarrow> tweet \<Rightarrow> datetime" where
  "extract_time_loop fromisoformat now [] tweet = datetime_now now None"
| "extract_time_loop fromisoformat now (selector # rest) tweet =
     (case query_selector tweet selector of
        Inl e \<Rightarrow> extract_time_loop fromisoformat now rest tweet
      | Inr None \<Rightarrow> extract_time_loop fromisoformat now rest tweet
      | Inr (Some elem) \<Rightarrow>
          (case get_attribute elem ''datetime'' of
             Inl e \<Rightarrow> extract_time_loop fromisoformat now rest tweet
           | Inr None \<Rightarrow> extract_time_loop fromisoformat now rest tweet
           | Inr (Some time_str) \<Rightarrow>
               if time_str \<noteq> []
               then (case fromisoformat (replace_Z time_str) of
                       Some d \<Rightarrow> d
                     | None \<Rightarrow> extract_time_loop fromisoformat now rest tweet)
               else extract_time_loop fromisoformat now rest tweet))"

definition extract_time ::
  "(string \<Rightarrow> datetime option) \<Rightarrow> sysclock \<Rightarrow> tweet \<Rightarrow> datetime" where
  "extract_time fromisoformat now tweet = extract_time_loop fromisoformat now TIMESTAMP tweet"

text \<open>
  The specification's words, for comparison: what one selector yields for a field. For the
  content, the text of the matched element trimmed, when more than 5 characters remain;
  for the author, the token derived from the reference of the matched element, when it
  is not empty; for the timestamp, a machine-readable date that parses.
\<close>

definition yields_text :: "tweet \<Rightarrow> string \<Rightarrow> string \<Rightarrow> bool" where
  "yields_text tweet selector v =
     (\<exists>elem text. query_selector tweet selector = Inr (Some elem) \<and> inner_text elem = Inr text
        \<and> length (strip text) > 5 \<and> v = strip text)"

definition author_value :: "tweet \<Rightarrow> string \<Rightarrow> string option" where
  "author_value tweet selector =
     (case query_selector tweet selector of
        Inr (Some elem) \<Rightarrow>
          (case get_attribute elem ''href'' of
             Inr (Some href) \<Rightarrow>
               (let token = hd (py_split ''/'' (strip_chars (\<lambda>c. c = CHR ''/'') href))
                in if token \<noteq> [] then Some token else None)
           | _ \<Rightarrow> None)
      | _ \<Rightarrow> None)"

definition yields_time :: "(string \<Rightarrow> datetime option) \<Rightarrow> tweet \<Rightarrow> string \<Rightarrow> bool" where
  "yields_time fromisoformat tweet selector =
     (\<exists>elem time_str d. query_selector tweet selector = Inr (Some elem)
        \<and> get_attribute elem ''datetime'' = Inr (Some time_str) \<and> time_str \<noteq> []
        \<and> fromisoformat (replace_Z time_str) = Some d)"

text \<open>
  The test the program makes of an author selector (lines 155 to 158): the selector
  finds an element whose reference is not empty. It looks at the reference, not at the
  token derived from it.
\<close>

definition has_href :: "tweet \<Rightarrow> string \<Rightarrow> bool" where
  "has_href tweet selector =
     (\<exists>elem href. query_selector tweet selector = Inr (Some elem)
        \<and> get_attribute elem ''href'' = Inr (Some href) \<and> href \<noteq> [])"

subsection \<open>Configuration, records and the log\<close>

text \<open>
  The module's settings once it is loaded (lines 22 to 25). \<^verbatim>\<open>MAX_HOURS_OLD\<close> and
  \<^verbatim>\<open>MAX_RESULTS\<close> are the integers that \<open>load_module\<close> below parses; the enable flag
  is computed from the variable of the environment, \<open>None\<close> when it is not set.
\<close>

record config =
  TWITTER_ENABLED_env :: "string option"
  TWITTER_COOKIES_PATH :: string
  MAX_HOURS_OLD :: int
  MAX_RESULTS :: int

definition TWITTER_ENABLED :: "config \<Rightarrow> bool" where
  "TWITTER_ENABLED cfg =
     (lower (case TWITTER_ENABLED_env cfg of None \<Rightarrow> ''false'' | Some v \<Rightarrow> v) = ''true'')"

text \<open>
  The environment of the process, as \<^verbatim>\<open>os.getenv\<close> reads it, and the top level of the
  module at lines 22 to 25. \<^verbatim>\<open>int\<close> is the library's parser, an argument here:
  \<open>None\<close> is its \<^verbatim>\<open>ValueError\<close>, which no handler takes at this point.
\<close>

type_synonym environ = "string \<Rightarrow> string option"

definition getenv :: "environ \<Rightarrow> string \<Rightarrow> string \<Rightarrow> string" where
  "getenv env key deflt = (case env key of None \<Rightarrow> deflt | Some v \<Rightarrow> v)"

definition load_module :: "(string \<Rightarrow> int option) \<Rightarrow> environ \<Rightarrow> exn + config" where
  "load_module int_of_str env =
     (case int_of_str (getenv env ''TWITTER_SEARCH_HOURS'' ''24'') of
        None \<Rightarrow> Inl (ValueError ''invalid literal for int() with base 10'')
      | Some hours \<Rightarrow>
          (case int_of_str (getenv env ''TWITTER_MAX_RESULTS'' ''20'') of
             None \<Rightarrow> Inl (ValueError ''invalid literal for int() with base 10'')
           | Some results \<Rightarrow>
               Inr \<lparr>TWITTER_ENABLED_env = env ''TWITTER_ENABLED'',
                    TWITTER_COOKIES_PATH = getenv env ''TWITTER_COOKIES_PATH'' [],
                    MAX_HOURS_OLD = hours,
                    MAX_RESULTS = results\<rparr>))"

definition SEARCH_QUERIES :: "string list" where
  "SEARCH_QUERIES =
     [''looking for developer'', ''hiring developer'', ''need developer'',
      ''looking for cofounder'']"

text \<open>
  The dictionary appended at lines 259 to 268. \<open>postedAt\<close> is kept as the timestamp
  that \<^verbatim>\<open>isoformat\<close> prints.
\<close>

record candidate =
  source :: string
  sourceId :: string
  sourceUrl :: string
  title :: string
  content :: string
  author :: string
  subreddit :: "string option"
  postedAt :: datetime

text \<open>
  The lines written to stderr, each with the data it prints. The banner of
  \<^verbatim>\<open>main\<close>, the lines of level DEBUG and the tracebacks are left out.
\<close>

datatype level = INFO | ERROR | WARN

datatype message =
    Starting_query string
  | Tweets_did_not_load
  | No_tweet_elements_found
  | Processing_tweets int
  | Tweet_accepted nat string
  | Tweet_failed nat exn
  | Query_failed string exn
  | Query_complete string nat
  | Twitter_disabled
  | No_cookies_path
  | Cookies_file_not_found exn
  | Cookies_invalid_json exn
  | Cookies_invalid exn
  | Cookies_loaded nat
  | Launching_browser
  | Browser_launched
  | Cookies_added
  | Stealth_applied
  | Query_number nat nat string
  | Browser_closed
  | Deduplication nat nat
  | Final_count nat
  | Fatal_error exn
  | Unhandled_exception exn

type_synonym log_entry = "level \<times> message"

subsection \<open>One post element\<close>

text \<open>
  The body of the loop of \<^verbatim>\<open>scrape_search\<close> (lines 242 to 268) on one post element:
  \<open>Inr None\<close> is a \<^verbatim>\<open>continue\<close>, \<open>Inr (Some r)\<close> the record appended, \<open>Inl e\<close> an
  exception on its way to the handler of line 271. \<open>clocks\<close> are the readings of the
  clock at line 192 and at line 68.
\<close>

definition process_tweet ::
  "config \<Rightarrow> (string \<Rightarrow> datetime option) \<Rightarrow> sysclock \<times> sysclock \<Rightarrow> tweet
     \<Rightarrow> exn + candidate option" where
  "process_tweet cfg fromisoformat clocks tweet =
     (case extract_text tweet of
        None \<Rightarrow> Inr None
      | Some text \<Rightarrow>
          if text = [] then Inr None
          else
            (let tweet_author = extract_author tweet
             in case extract_url tweet of
                  (Some source_url, Some tweet_id) \<Rightarrow>
                    if source_url = [] \<or> tweet_id = [] then Inr None
                    else
                      (let posted_at = extract_time fromisoformat (fst clocks) tweet
                       in case is_fresh (MAX_HOURS_OLD cfg) (snd clocks) posted_at of
                            Inl e \<Rightarrow> Inl e
                          | Inr fresh \<Rightarrow>
                              if \<not> fresh then Inr None
                              else if matches_negative_filters NEGATIVE_FILTERS text then Inr None
                              else Inr (Some
                                \<lparr>source = ''x'',
                                 sourceId = tweet_id,
                                 sourceUrl = source_url,
                                 title = take 100 text @ (if length text > 100 then ''...'' else []),
                                 content = text,
                                 author = tweet_author,
                                 subreddit = None,
                                 postedAt = posted_at\<rparr>))
                | _ \<Rightarrow> Inr None))"

subsection \<open>One query\<close>

text \<open>
  What the page driver answers during one query: \<open>Some e\<close> is a call raising \<open>e\<close>.
  \<^verbatim>\<open>HumanBehavior.human_like_scroll\<close> (lines 88 to 103) moves the page by calls of
  \<^verbatim>\<open>page.evaluate\<close> between sleeps; the program sees of it whether one of the calls
  raised. \<open>clock idx\<close> are the two readings of the clock while the post element number
  \<open>idx\<close> is processed.
\<close>

record page =
  goto :: "string \<Rightarrow> exn option"
  wait_for_selector :: "string \<Rightarrow> exn option"
  human_like_scroll :: "exn option"
  query_selector_all :: "string \<Rightarrow> exn + tweet list"
  clock :: "nat \<Rightarrow> sysclock \<times> sysclock"

text \<open>Lines 221 to 230: the first container selector with any match.\<close>

fun find_tweets :: "page \<Rightarrow> string list \<Rightarrow> tweet list" where
  "find_tweets pg [] = []"
| "find_tweets pg (selector # rest) =
     (case query_selector_all pg selector of
        Inl e \<Rightarrow> find_tweets pg rest
      | Inr found \<Rightarrow> if found \<noteq> [] then found else find_tweets pg rest)"

text \<open>\<^verbatim>\<open>xs[:n]\<close>: a negative \<open>n\<close> counts from the end.\<close>

definition py_take :: "int \<Rightarrow> 'a list \<Rightarrow> 'a list" where
  "py_take n xs = (if 0 \<le> n then take (nat n) xs else take (nat (int (length xs) + n)) xs)"

text \<open>Lines 240 to 273: the loop, with the list of results and the log it extends.\<close>

fun process_tweets ::
  "config \<Rightarrow> (string \<Rightarrow> datetime option) \<Rightarrow> (nat \<Rightarrow> sysclock \<times> sysclock) \<Rightarrow> nat \<Rightarrow> tweet list
     \<Rightarrow> candidate list \<Rightarrow> log_entry list \<Rightarrow> candidate list \<times> log_entry list" where
  "process_tweets cfg fromisoformat clk idx [] results lg = (results, lg)"
| "process_tweets cfg fromisoformat clk idx (tweet # rest) results lg =
     (case process_tweet cfg fromisoformat (clk idx) tweet of
        Inl e \<Rightarrow>
          process_tweets cfg fromisoformat clk (Suc idx) rest results
            (lg @ [(ERROR, Tweet_failed (idx + 1) e)])
      | Inr None \<Rightarrow> process_tweets cfg fromisoformat clk (Suc idx) rest results lg
      | Inr (Some r) \<Rightarrow>
          process_tweets cfg fromisoformat clk (Suc idx) rest (results @ [r])
            (lg @ [(INFO, Tweet_accepted (idx + 1) (author r))]))"

text \<open>
  The \<^verbatim>\<open>try\<close> block of \<^verbatim>\<open>scrape_search\<close> (lines 204 to 273): the results and the
  log when it is left, and how it is left: at its end, by the \<^verbatim>\<open>return\<close> of line 234,
  or by an exception. The bare \<^verbatim>\<open>except\<close> of line 214 lets the query go on.
\<close>

datatype ending = Completed | Returned_early | Raised exn

definition scrape_try ::
  "config \<Rightarrow> (string \<Rightarrow> datetime option) \<Rightarrow> page \<Rightarrow> string
     \<Rightarrow> candidate list \<times> log_entry list \<times> ending" where
  \<open>scrape_try cfg fromisoformat pg search_url =
     (case goto pg search_url of
        Some e \<Rightarrow> ([], [], Raised e)
      | None \<Rightarrow>
          (let lg1 = (case wait_for_selector pg ''article[data-testid="tweet"]'' of
                        Some e \<Rightarrow> [(WARN, Tweets_did_not_load)]
                      | None \<Rightarrow> [])
           in case human_like_scroll pg of
                Some e \<Rightarrow> ([], lg1, Raised e)
              | None \<Rightarrow>
                  (let tweets = find_tweets pg TWEET_CONTAINERS
                   in if tweets = []
                      then ([], lg1 @ [(WARN, No_tweet_elements_found)], Returned_early)
                      else
                        (let lg2 = lg1 @ [(INFO, Processing_tweets
                                             (min (int (length tweets)) (MAX_RESULTS cfg)))];
                             (results, lg3) =
                               process_tweets cfg fromisoformat (clock pg) 0
                                 (py_take (MAX_RESULTS cfg) tweets) [] lg2
                         in (results, lg3, Completed)))))\<close>

definition search_url_of :: "string \<Rightarrow> string" where
  "search_url_of query = ''https://x.com/search?q='' @ query @ ''&src=typed_query&f=live''"

text \<open>\<^verbatim>\<open>scrape_search\<close> (lines 195 to 279): the list it returns and what it logs.\<close>

definition scrape_search ::
  "config \<Rightarrow> (string \<Rightarrow> datetime option) \<Rightarrow> page \<Rightarrow> string
     \<Rightarrow> candidate list \<times> log_entry list" where
  "scrape_search cfg fromisoformat pg query =
     (let search_url = search_url_of query;
          (results, lg, ending) = scrape_try cfg fromisoformat pg search_url;
          lg0 = (INFO, Starting_query query) # lg
      in case ending of
           Returned_early \<Rightarrow> (results, lg0)
         | Raised e \<Rightarrow>
             (results, lg0 @ [(ERROR, Query_failed query e),
                              (INFO, Query_complete query (length results))])
         | Completed \<Rightarrow> (results, lg0 @ [(INFO, Query_complete query (length results))]))"

subsection \<open>The run\<close>

text \<open>
  \<^verbatim>\<open>load_cookies_from_file\<close> (lines 282 to 302). The file is absent, or reading it
  raises (\<^verbatim>\<open>open\<close>, \<^verbatim>\<open>json.load\<close> with its \<^verbatim>\<open>JSONDecodeError\<close>, a document of
  another shape), or it holds a dictionary whose entry \<^verbatim>\<open>cookies\<close>, when it has one, is a
  list of cookies. Of a cookie the function reads the name.
\<close>

datatype cookie = Cookie (cookie_name: "string option")

datatype cookie_file = NoFile | ReadFails exn | JsonDocument "cookie list option"

definition load_cookies_from_file :: "(string \<Rightarrow> cookie_file) \<Rightarrow> string \<Rightarrow> exn + cookie list" where
  "load_cookies_from_file files cookies_path =
     (case files cookies_path of
        NoFile \<Rightarrow> Inl (FileNotFoundError (''Cookies file not found: '' @ cookies_path))
      | ReadFails e \<Rightarrow> Inl e
      | JsonDocument d \<Rightarrow>
          (let cookies = (case d of None \<Rightarrow> [] | Some cs \<Rightarrow> cs)
           in if cookies = [] then Inl (ValueError ''No cookies found in file'')
              else
                (let has_auth = list_ex (\<lambda>c. cookie_name c = Some ''auth_token'') cookies;
                     has_ct0 = list_ex (\<lambda>c. cookie_name c = Some ''ct0'') cookies
                 in if \<not> has_auth then Inl (ValueError ''Missing required cookie: auth_token'')
                    else if \<not> has_ct0 then Inl (ValueError ''Missing required cookie: ct0'')
                    else Inr cookies)))"

text \<open>
  What the run meets outside the program: the files, the steps of the browser (\<open>Some e\<close>
  is the step raising \<open>e\<close>), and the page as it answers during the query number \<open>idx\<close>,
  counted from 1 as line 368 counts. \<open>launch\<close> is entering the block of line 345 and
  launching the browser, \<open>apply_stealth\<close> is lines 360 and 361; leaving the block of line
  345 is taken not to raise.
\<close>

record world =
  file_at :: "string \<Rightarrow> cookie_file"
  launch :: "exn option"
  new_context :: "exn option"
  add_cookies :: "exn option"
  apply_stealth :: "exn option"
  new_page :: "exn option"
  pages :: "nat \<Rightarrow> page"
  close :: "exn option"

text \<open>Lines 368 to 374: the loop over the queries.\<close>

fun run_queries ::
  "config \<Rightarrow> (string \<Rightarrow> datetime option) \<Rightarrow> world \<Rightarrow> nat \<Rightarrow> nat \<Rightarrow> string list
     \<Rightarrow> candidate list \<Rightarrow> log_entry list \<Rightarrow> candidate list \<times> log_entry list" where
  "run_queries cfg fromisoformat w idx n [] all_results lg = (all_results, lg)"
| "run_queries cfg fromisoformat w idx n (query # rest) all_results lg =
     (let (tweets, qlog) = scrape_search cfg fromisoformat (pages w idx) query
      in run_queries cfg fromisoformat w (Suc idx) n rest (all_results @ tweets)
           (lg @ [(INFO, Query_number idx n query)] @ qlog))"

text \<open>Lines 379 to 385: the deduplication, with the set of identifiers seen.\<close>

fun deduplicate_loop :: "string set \<Rightarrow> candidate list \<Rightarrow> candidate list" where
  "deduplicate_loop seen [] = []"
| "deduplicate_loop seen (r # rest) =
     (if sourceId r \<noteq> [] \<and> sourceId r \<notin> seen
      then r # deduplicate_loop (insert (sourceId r) seen) rest
      else deduplicate_loop seen rest)"

definition deduplicate :: "candidate list \<Rightarrow> candidate list" where
  "deduplicate all_results = deduplicate_loop {} all_results"

text \<open>
  The \<^verbatim>\<open>try\<close> block of \<^verbatim>\<open>main\<close> up to the deduplication (lines 345 to 388): the log,
  and the exception that left the block or the list about to be printed.
\<close>

definition browser_session ::
  "config \<Rightarrow> (string \<Rightarrow> datetime option) \<Rightarrow> world \<Rightarrow> log_entry list \<times> (exn + candidate list)" where
  "browser_session cfg fromisoformat w =
     (case launch w of
        Some e \<Rightarrow> ([], Inl e)
      | None \<Rightarrow>
     (let lg1 = [(INFO, Browser_launched)] in
      case new_context w of
        Some e \<Rightarrow> (lg1, Inl e)
      | None \<Rightarrow>
     (case add_cookies w of
        Some e \<Rightarrow> (lg1, Inl e)
      | None \<Rightarrow>
     (let lg2 = lg1 @ [(INFO, Cookies_added)] in
      case apply_stealth w of
        Some e \<Rightarrow> (lg2, Inl e)
      | None \<Rightarrow>
     (let lg3 = lg2 @ [(INFO, Stealth_applied)] in
      case new_page w of
        Some e \<Rightarrow> (lg3, Inl e)
      | None \<Rightarrow>
     (let (all_results, lg4) =
            run_queries cfg fromisoformat w 1 (length SEARCH_QUERIES) SEARCH_QUERIES [] lg3
      in case close w of
           Some e \<Rightarrow> (lg4, Inl e)
         | None \<Rightarrow>
             (let unique_results = deduplicate all_results
              in (lg4 @ [(INFO, Browser_closed),
                         (INFO, Deduplication (length all_results) (length unique_results)),
                         (INFO, Final_count (length unique_results))],
                  Inr unique_results))))))))"

text \<open>
  \<^verbatim>\<open>main\<close> (lines 305 to 399): the documents printed on stdout, each a list of records,
  the log, and how \<^verbatim>\<open>main\<close> ends: by \<^verbatim>\<open>sys.exit\<close> with a status, or by an exception
  that no handler of \<^verbatim>\<open>main\<close> takes.
\<close>

record run =
  printed :: "candidate list list"
  logged :: "log_entry list"
  ended :: "exn + int"

definition main :: "config \<Rightarrow> (string \<Rightarrow> datetime option) \<Rightarrow> world \<Rightarrow> run" where
  "main cfg fromisoformat w =
     (if \<not> TWITTER_ENABLED cfg
      then \<lparr>printed = [[]], logged = [(WARN, Twitter_disabled)], ended = Inr 0\<rparr>
      else if TWITTER_COOKIES_PATH cfg = []
      then \<lparr>printed = [[]], logged = [(ERROR, No_cookies_path)], ended = Inr 1\<rparr>
      else
        (case load_cookies_from_file (file_at w) (TWITTER_COOKIES_PATH cfg) of
           Inl (FileNotFoundError m) \<Rightarrow>
             \<lparr>printed = [[]],
              logged = [(ERROR, Cookies_file_not_found (FileNotFoundError m))],
              ended = Inr 1\<rparr>
         | Inl (JSONDecodeError m) \<Rightarrow>
             \<lparr>printed = [[]],
              logged = [(ERROR, Cookies_invalid_json (JSONDecodeError m))],
              ended = Inr 1\<rparr>
         | Inl (ValueError m) \<Rightarrow>
             \<lparr>printed = [[]], logged = [(ERROR, Cookies_invalid (ValueError m))], ended = Inr 1\<rparr>
         | Inl e \<Rightarrow> \<lparr>printed = [], logged = [], ended = Inl e\<rparr>
         | Inr cookies \<Rightarrow>
             (let lg = [(INFO, Cookies_loaded (length cookies)), (INFO, Launching_browser)]
              in case browser_session cfg fromisoformat w of
                   (blog, Inl e) \<Rightarrow>
                     \<lparr>printed = [[]], logged = lg @ blog @ [(ERROR, Fatal_error e)],
                      ended = Inr 1\<rparr>
                 | (blog, Inr unique_results) \<Rightarrow>
                     \<lparr>printed = [unique_results], logged = lg @ blog, ended = Inr 0\<rparr>)))"

text \<open>
  The block under \<^verbatim>\<open>__main__\<close> (lines 402 to 413): what the process leaves on stdout
  and stderr, and its exit status.
\<close>

record process =
  stdout :: "candidate list list"
  stderr :: "log_entry list"
  exit_status :: int

definition program :: "config \<Rightarrow> (string \<Rightarrow> datetime option) \<Rightarrow> world \<Rightarrow> process" where
  "program cfg fromisoformat w =
     (let r = main cfg fromisoformat w
      in case ended r of
           Inr status \<Rightarrow> \<lparr>stdout = printed r, stderr = logged r, exit_status = status\<rparr>
         | Inl e \<Rightarrow>
             \<lparr>stdout = printed r @ [[]],
              stderr = logged r @ [(ERROR, Unhandled_exception e)],
              exit_status = 1\<rparr>)"

text \<open>
  The script as the interpreter runs it: the top level of the module, then the block
  under \<^verbatim>\<open>__main__\<close>. An exception at the top level is outside every handler: the
  interpreter prints its traceback on stderr (no line of the program's log), nothing is
  on stdout and the status is 1. The imports of lines 8 to 17 are taken to succeed.
\<close>

definition script ::
  "(string \<Rightarrow> int option) \<Rightarrow> (string \<Rightarrow> datetime option) \<Rightarrow> environ \<Rightarrow> world \<Rightarrow> process" where
  "script int_of_str fromisoformat env w =
     (case load_module int_of_str env of
        Inl e \<Rightarrow> \<lparr>stdout = [], stderr = [], exit_status = 1\<rparr>
      | Inr cfg \<Rightarrow> program cfg fromisoformat w)"

subsection \<open>Notions the properties use\<close>

text \<open>A record with the three required fields.\<close>

definition required_fields :: "candidate \<Rightarrow> bool" where
  "required_fields r = (sourceId r \<noteq> [] \<and> sourceUrl r \<noteq> [] \<and> content r \<noteq> [])"

text \<open>
  What \<^verbatim>\<open>scrape_search\<close> returns and logs for each query of a list, the first of them
  being the query number \<open>idx\<close>.
\<close>

fun per_query ::
  "config \<Rightarrow> (string \<Rightarrow> datetime option) \<Rightarrow> world \<Rightarrow> nat \<Rightarrow> string list
     \<Rightarrow> (candidate list \<times> log_entry list) list" where
  "per_query cfg fromisoformat w idx [] = []"
| "per_query cfg fromisoformat w idx (query # rest) =
     scrape_search cfg fromisoformat (pages w idx) query
       # per_query cfg fromisoformat w (Suc idx) rest"



subsection \<open>Sample inputs\<close>

text \<open>
  The clock at 2026-01-01T00:00:00 UTC (739616 days after 0001-01-01), in a zone without
  offset; a parser that knows two dates, one hour and 25 hours earlier.
\<close>

definition new_year_2026 :: sysclock where
  "new_year_2026 = \<lparr>utc_now = 63902822400000000, local_offset = 0\<rparr>"

definition one_hour_before :: datetime where
  "one_hour_before = \<lparr>wall = 63902818800000000, tzoffset = Some 0\<rparr>"

definition twenty_five_hours_before :: datetime where
  "twenty_five_hours_before = \<lparr>wall = 63902732400000000, tzoffset = Some 0\<rparr>"

definition demo_fromisoformat :: "string \<Rightarrow> datetime option" where
  "demo_fromisoformat s =
     (if s = ''2025-12-31T23:00:00+00:00'' then Some one_hour_before
      else if s = ''2025-12-30T23:00:00+00:00'' then Some twenty_five_hours_before
      else None)"

definition demo_config :: config where
  "demo_config =
     \<lparr>TWITTER_ENABLED_env = Some ''True'', TWITTER_COOKIES_PATH = ''cookies.json'',
      MAX_HOURS_OLD = 24, MAX_RESULTS = 20\<rparr>"

text \<open>
  A parser for the sample runs: \<^verbatim>\<open>int\<close> on a string of decimal digits. It rejects
  every other string; of those \<^verbatim>\<open>int\<close> accepts some (a sign, blanks or underscores
  around the digits), none of which occurs below.
\<close>

definition decimal_int :: "string \<Rightarrow> int option" where
  "decimal_int s =
     (if s \<noteq> [] \<and> list_all (\<lambda>c. 48 \<le> (of_char c :: nat) \<and> (of_char c :: nat) \<le> 57) s
      then Some (foldl (\<lambda>n c. 10 * n + (int (of_char c) - 48)) 0 s)
      else None)"


definition empty_env :: environ where
  "empty_env key = None"

definition env_24h :: environ where
  "env_24h key = (if key = ''TWITTER_SEARCH_HOURS'' then Some ''24h'' else None)"


text \<open>An element with one attribute, and a post element with a text, a link and a date.\<close>

definition attribute :: "string \<Rightarrow> string \<Rightarrow> element" where
  "attribute a v = Element (Inr []) (\<lambda>x. if x = a then Inr (Some v) else Inr None)"

definition demo_tweet :: "string \<Rightarrow> string \<Rightarrow> string \<Rightarrow> tweet" where
  \<open>demo_tweet text href time_str =
     Tweet (\<lambda>selector.
       if selector = ''div[data-testid="tweetText"]''
       then Inr (Some (Element (Inr text) (\<lambda>x. Inr None)))
       else if selector = ''a[role="link"]'' then Inr (Some (attribute ''href'' ''/alice''))
       else if selector = ''a[href*="/status/"]'' \<and> href \<noteq> []
       then Inr (Some (attribute ''href'' href))
       else if selector = ''time'' then Inr (Some (attribute ''datetime'' time_str))
       else Inr None)\<close>

definition fresh_tweet :: tweet where
  "fresh_tweet =
     demo_tweet '' Looking for a developer to build an app ''
       ''/alice/status/12345?s=20'' ''2025-12-31T23:00:00Z''"

definition old_tweet :: tweet where
  "old_tweet =
     demo_tweet ''Need a developer for my startup'' ''/alice/status/777''
       ''2025-12-30T23:00:00Z''"

definition unlinked_tweet :: tweet where
  "unlinked_tweet = demo_tweet ''Hiring a developer this week'' [] ''2025-12-31T23:00:00Z''"

text \<open>
  A post element whose first text selector raises and whose second matches; one whose
  first author link refers to the root of the site; and one on which no author selector
  and no timestamp selector yields a value.
\<close>

definition second_only_tweet :: tweet where
  \<open>second_only_tweet =
     Tweet (\<lambda>selector.
       if selector = ''div[data-testid="tweetText"]'' then Inl (OtherException ''detached'')
       else if selector = ''div[lang]''
       then Inr (Some (Element (Inr ''  need a developer  '') (\<lambda>a. Inr None)))
       else Inr None)\<close>

definition slash_tweet :: tweet where
  \<open>slash_tweet =
     Tweet (\<lambda>selector.
       if selector = ''a[role="link"]'' then Inr (Some (attribute ''href'' ''/''))
       else Inr None)\<close>

definition bare_tweet :: tweet where
  \<open>bare_tweet =
     Tweet (\<lambda>selector.
       if selector = ''a[role="link"]'' then Inl (OtherException ''detached'')
       else if selector = ''time'' then Inr (Some (attribute ''datetime'' ''yesterday''))
       else Inr None)\<close>

definition fresh_record :: candidate where
  "fresh_record =
     \<lparr>source = ''x'', sourceId = ''12345'',
      sourceUrl = ''https://x.com/alice/status/12345?s=20'',
      title = ''Looking for a developer to build an app'',
      content = ''Looking for a developer to build an app'',
      author = ''alice'', subreddit = None,
      postedAt = one_hour_before\<rparr>"



text \<open>
  A page with three post elements (one without a status link, one 25 hours old, one
  that passes), a page whose navigation times out, and a run whose first query meets the
  second page and whose other queries meet the first.
\<close>

definition three_tweets_page :: page where
  \<open>three_tweets_page =
     \<lparr>goto = (\<lambda>url. None),
      wait_for_selector = (\<lambda>selector. None),
      human_like_scroll = None,
      query_selector_all = (\<lambda>selector.
        if selector = ''article[data-testid="tweet"]''
        then Inr [unlinked_tweet, old_tweet, fresh_tweet] else Inr []),
      clock = (\<lambda>idx. (new_year_2026, new_year_2026))\<rparr>\<close>

definition timeout_page :: page where
  "timeout_page =
     \<lparr>goto = (\<lambda>url. Some (OtherException ''Timeout 60000ms exceeded'')),
      wait_for_selector = (\<lambda>selector. None),
      human_like_scroll = None,
      query_selector_all = (\<lambda>selector. Inr []),
      clock = (\<lambda>idx. (new_year_2026, new_year_2026))\<rparr>"

definition demo_world :: world where
  "demo_world =
     \<lparr>file_at = (\<lambda>path. JsonDocument (Some [Cookie (Some ''auth_token''), Cookie (Some ''ct0'')])),
      launch = None, new_context = None, add_cookies = None, apply_stealth = None,
      new_page = None,
      pages = (\<lambda>idx. if idx = 1 then timeout_page else three_tweets_page),
      close = None\<rparr>"





section \<open>Properties\<close>

subsection \<open>Strings\<close>

lemma py_split_not_Nil: "py_split sep s \<noteq> []"
  by (induction sep s rule: py_split.induct) (auto split: list.splits)

lemma strip_Nil: "strip [] = []"
  by (simp add: strip_def strip_chars_def)

text \<open>The first piece of a split at one character stops at that character.\<close>

lemma py_split_single_char_hd: "hd (py_split [c] s) = takeWhile (\<lambda>x. x \<noteq> c) s"
proof (induction s)
  case Nil
  then show ?case by simp
next
  case (Cons x xs)
  show ?case
  proof (cases "x = c")
    case True
    then show ?thesis by simp
  next
    case False
    obtain p ps where "py_split [c] xs = p # ps"
      using py_split_not_Nil [of "[c]" xs] by (cases "py_split [c] xs") auto
    with False Cons show ?thesis by simp
  qed
qed

lemma takeWhile_twice: "takeWhile p (takeWhile q s) = takeWhile (\<lambda>x. q x \<and> p x) s"
  by (induction s) auto

text \<open>
  The last piece of a split: the whole text when the separator does not occur, and
  otherwise what follows an occurrence of the separator and holds none itself.
\<close>

lemma py_split_last:
  "sep \<noteq> [] \<Longrightarrow>
   (py_split sep s = [s] \<and> \<not> sublist sep s)
   \<or> (length (py_split sep s) \<ge> 2
       \<and> (\<exists>pre. s = pre @ sep @ last (py_split sep s))
       \<and> \<not> sublist sep (last (py_split sep s)))"
proof (induction sep s rule: py_split.induct)
  case (1 sep)
  then show ?case by (cases sep) auto
next
  case (2 sep c cs)
  note sep = \<open>sep \<noteq> []\<close>
  show ?case
  proof (cases "sep \<noteq> [] \<and> prefix sep (c # cs)")
    case True
    let ?rest = "drop (length sep) (c # cs)"
    from True have split: "c # cs = sep @ ?rest"
      by (metis append_eq_conv_conj prefixE)
    have ps: "py_split sep (c # cs) = [] # py_split sep ?rest"
      using True by simp
    have ne: "py_split sep ?rest \<noteq> []"
      by (rule py_split_not_Nil)
    have two: "length (py_split sep (c # cs)) \<ge> 2"
      using ps ne by (cases "py_split sep ?rest") auto
    have l: "last (py_split sep (c # cs)) = last (py_split sep ?rest)"
      using ps ne by simp
    from 2(1) [OF True sep] show ?thesis
    proof
      assume a: "py_split sep ?rest = [?rest] \<and> \<not> sublist sep ?rest"
      then have "last (py_split sep (c # cs)) = ?rest"
        using l by simp
      moreover have "c # cs = [] @ sep @ ?rest"
        using split by simp
      ultimately show ?thesis
        using a two by metis
    next
      assume a: "length (py_split sep ?rest) \<ge> 2
           \<and> (\<exists>pre. ?rest = pre @ sep @ last (py_split sep ?rest))
           \<and> \<not> sublist sep (last (py_split sep ?rest))"
      then obtain pre where pre: "?rest = pre @ sep @ last (py_split sep ?rest)"
        by blast
      have "c # cs = (sep @ pre) @ sep @ last (py_split sep ?rest)"
        using split pre by (metis append.assoc)
      then show ?thesis
        using a l two by metis
    qed
  next
    case False
    obtain p ps where pp: "py_split sep cs = p # ps"
      using py_split_not_Nil [of sep cs] by (cases "py_split sep cs") auto
    have res: "py_split sep (c # cs) = (c # p) # ps"
      using False pp by simp
    have nopre: "\<not> prefix sep (c # cs)"
      using False sep by simp
    from 2(2) [OF False sep] show ?thesis
    proof
      assume a: "py_split sep cs = [cs] \<and> \<not> sublist sep cs"
      then have "py_split sep (c # cs) = [c # cs]"
        using res pp by simp
      moreover have "\<not> sublist sep (c # cs)"
        using a nopre by (simp add: sublist_Cons_right)
      ultimately show ?thesis by simp
    next
      assume a: "length (py_split sep cs) \<ge> 2
           \<and> (\<exists>pre. cs = pre @ sep @ last (py_split sep cs))
           \<and> \<not> sublist sep (last (py_split sep cs))"
      then have "ps \<noteq> []"
        using pp by auto
      then have l: "last (py_split sep (c # cs)) = last (py_split sep cs)"
        using res pp by simp
      from a obtain pre where "cs = pre @ sep @ last (py_split sep cs)"
        by blast
      then have "c # cs = (c # pre) @ sep @ last (py_split sep cs)"
        by simp
      moreover have "length (py_split sep (c # cs)) \<ge> 2"
        using a res pp by simp
      ultimately show ?thesis
        using a l by metis
    qed
  qed
qed

lemma py_split_last_after:
  assumes "sep \<noteq> []" "sublist sep s"
  shows "\<exists>pre. s = pre @ sep @ last (py_split sep s)"
    and "\<not> sublist sep (last (py_split sep s))"
  using py_split_last [OF assms(1), of s] assms(2) by auto

lemma sublist_lower_iff: "sublist (lower entry) (lower text) \<longleftrightarrow> occurs_ignoring_case entry text"
proof
  assume "sublist (lower entry) (lower text)"
  then obtain ps ss where "map lower_char text = ps @ map lower_char entry @ ss"
    by (auto simp: sublist_def lower_def)
  then obtain pre rest where t: "text = pre @ rest"
      and rest: "map lower_char rest = map lower_char entry @ ss"
    by (metis map_eq_append_conv)
  from rest obtain mid post where "rest = mid @ post" "map lower_char mid = map lower_char entry"
    by (metis map_eq_append_conv)
  with t show "occurs_ignoring_case entry text"
    by (auto simp: occurs_ignoring_case_def lower_def)
next
  assume "occurs_ignoring_case entry text"
  then obtain pre mid post where "text = pre @ mid @ post" "lower mid = lower entry"
    by (auto simp: occurs_ignoring_case_def)
  then have "lower text = lower pre @ lower entry @ lower post"
    by (simp add: lower_def)
  then show "sublist (lower entry) (lower text)"
    by (auto simp: sublist_def)
qed

subsection \<open>The negative filter\<close>

text \<open>
  C5. For every text and every filter list, \<open>matches_negative_filters\<close> is true exactly
  when some entry of the list occurs in the text as a substring with letter case ignored;
  and it is true of the text "Looking for a developer, I am a developer myself" against the
  program's own list.
\<close>

theorem matches_negative_filters_iff:
  "(matches_negative_filters filters text \<longleftrightarrow>
      (\<exists>f. f \<in> set filters \<and> occurs_ignoring_case f text))
   \<and> matches_negative_filters NEGATIVE_FILTERS
        ''Looking for a developer, I am a developer myself''"
proof
  show "matches_negative_filters filters text \<longleftrightarrow>
      (\<exists>f. f \<in> set filters \<and> occurs_ignoring_case f text)"
    by (auto simp: matches_negative_filters_def list_ex_iff sublist_lower_iff)
  show "matches_negative_filters NEGATIVE_FILTERS
        ''Looking for a developer, I am a developer myself''"
    by code_simp
qed

subsection \<open>Freshness\<close>

lemma timedelta_hours_in_range:
  assumes "representable w" "representable (w - hours_us h)"
  shows "timedelta_hours h = Inr (hours_us h)"
proof -
  from assms have "\<bar>h * 3600000000\<bar> < MAX_US"
    by (auto simp: representable_def hours_us_def)
  then have "\<bar>h\<bar> < 3652059 * 24"
    by (auto simp: MAX_US_def)
  then have "\<bar>h div 24\<bar> \<le> 999999999"
    by linarith
  then show ?thesis
    by (simp add: timedelta_hours_def hours_us_def)
qed

lemma is_fresh_in_range:
  assumes "representable (wall (datetime_now clk (tzoffset posted_at)))"
    and "representable (wall (datetime_now clk (tzoffset posted_at)) - hours_us h)"
  shows "is_fresh h clk posted_at = Inr (utc_now clk - hours_us h < utc_instant clk posted_at)"
proof -
  have td: "timedelta_hours h = Inr (hours_us h)"
    using assms by (rule timedelta_hours_in_range)
  show ?thesis
    using assms(2)
    by (cases "tzoffset posted_at")
       (auto simp: is_fresh_def td datetime_sub_def datetime_gt_def datetime_now_def
          utc_instant_def)
qed

lemma timedelta_hours_cases:
  "(\<exists>m. timedelta_hours h = Inl (OverflowError m)) \<or> timedelta_hours h = Inr (hours_us h)"
  by (simp add: timedelta_hours_def hours_us_def)

lemma is_fresh_out_of_range:
  assumes "\<not> representable (wall (datetime_now clk (tzoffset posted_at)) - hours_us h)"
  shows "\<exists>m. is_fresh h clk posted_at = Inl (OverflowError m)"
  using timedelta_hours_cases [of h]
proof
  assume "\<exists>m. timedelta_hours h = Inl (OverflowError m)"
  then show ?thesis
    by (auto simp: is_fresh_def)
next
  assume "timedelta_hours h = Inr (hours_us h)"
  then show ?thesis
    using assms by (simp add: is_fresh_def datetime_sub_def)
qed

text \<open>
  C4, as the program has it. When the clock's reading and the cutoff (the reading minus
  the window) are both dates of the type \<^verbatim>\<open>datetime\<close> (years 1 to 9999), \<open>is_fresh\<close>
  returns true exactly when the timestamp is strictly later than the current time minus
  the window; so with a window of 24 hours it is true of a timestamp one hour before now
  and false of one 25 hours before now. When the cutoff is not such a date, \<open>is_fresh\<close>
  raises an \<^verbatim>\<open>OverflowError\<close> and returns nothing.
\<close>

theorem is_fresh_iff:
  "(representable (wall (datetime_now clk (tzoffset posted_at)))
      \<and> representable (wall (datetime_now clk (tzoffset posted_at)) - hours_us h)
     \<longrightarrow> is_fresh h clk posted_at
          = Inr (utc_now clk - hours_us h < utc_instant clk posted_at))
   \<and> (representable (wall (datetime_now clk (tzoffset posted_at)))
      \<and> representable (wall (datetime_now clk (tzoffset posted_at)) - hours_us 24)
     \<longrightarrow> (utc_instant clk posted_at = utc_now clk - hours_us 1
            \<longrightarrow> is_fresh 24 clk posted_at = Inr True)
        \<and> (utc_instant clk posted_at = utc_now clk - hours_us 25
            \<longrightarrow> is_fresh 24 clk posted_at = Inr False))
   \<and> (\<not> representable (wall (datetime_now clk (tzoffset posted_at)) - hours_us h)
     \<longrightarrow> (\<exists>m. is_fresh h clk posted_at = Inl (OverflowError m)))"
proof (intro conjI impI)
  assume "representable (wall (datetime_now clk (tzoffset posted_at)))
      \<and> representable (wall (datetime_now clk (tzoffset posted_at)) - hours_us h)"
  then show "is_fresh h clk posted_at
          = Inr (utc_now clk - hours_us h < utc_instant clk posted_at)"
    by (simp add: is_fresh_in_range)
next
  assume r: "representable (wall (datetime_now clk (tzoffset posted_at)))
      \<and> representable (wall (datetime_now clk (tzoffset posted_at)) - hours_us 24)"
  then have eq: "is_fresh 24 clk posted_at
          = Inr (utc_now clk - hours_us 24 < utc_instant clk posted_at)"
    by (simp add: is_fresh_in_range)
  show "is_fresh 24 clk posted_at = Inr True"
    if "utc_instant clk posted_at = utc_now clk - hours_us 1"
    using that eq by (simp add: hours_us_def)
  show "is_fresh 24 clk posted_at = Inr False"
    if "utc_instant clk posted_at = utc_now clk - hours_us 25"
    using that eq by (simp add: hours_us_def)
next
  assume "\<not> representable (wall (datetime_now clk (tzoffset posted_at)) - hours_us h)"
  then show "\<exists>m. is_fresh h clk posted_at = Inl (OverflowError m)"
    by (rule is_fresh_out_of_range)
qed

text \<open>
  At the clock of 2026-01-01 with a window of 24 hours: a timestamp one hour old is fresh
  and one 25 hours old is not.
\<close>

theorem is_fresh_iff_witness:
  "representable (wall (datetime_now new_year_2026 (Some 0)))
   \<and> representable (wall (datetime_now new_year_2026 (Some 0)) - hours_us 24)
   \<and> is_fresh 24 new_year_2026 one_hour_before = Inr True
   \<and> is_fresh 24 new_year_2026 twenty_five_hours_before = Inr False"
proof -
  have tz: "tzoffset one_hour_before = Some 0" "tzoffset twenty_five_hours_before = Some 0"
    by (simp_all add: one_hour_before_def twenty_five_hours_before_def)
  have r: "representable (wall (datetime_now new_year_2026 (Some 0)))"
    "representable (wall (datetime_now new_year_2026 (Some 0)) - hours_us 24)"
    by (simp_all add: representable_def MAX_US_def datetime_now_def new_year_2026_def
        hours_us_def)
  have a: "utc_instant new_year_2026 one_hour_before = utc_now new_year_2026 - hours_us 1"
    by (simp add: utc_instant_def one_hour_before_def new_year_2026_def hours_us_def)
  have b: "utc_instant new_year_2026 twenty_five_hours_before
             = utc_now new_year_2026 - hours_us 25"
    by (simp add: utc_instant_def twenty_five_hours_before_def new_year_2026_def hours_us_def)
  show ?thesis
    using is_fresh_iff [of new_year_2026 one_hour_before 24]
      is_fresh_iff [of new_year_2026 twenty_five_hours_before 24] tz r a b
    by (simp add: hours_us_def)
qed

text \<open>
  The claim as the specification states it, for every window, fails: with a window of
  20000000 hours the cutoff lies before the year 1, so \<open>is_fresh\<close> raises and returns
  neither true nor false, although the timestamp is later than now minus the window.
\<close>

theorem is_fresh_every_window_counterexample:
  "is_fresh 20000000 new_year_2026 one_hour_before
     = Inl (OverflowError ''date value out of range'')
   \<and> utc_now new_year_2026 - hours_us 20000000 < utc_instant new_year_2026 one_hour_before"
  by (simp add: is_fresh_def timedelta_hours_def datetime_sub_def datetime_now_def
      representable_def MAX_US_def new_year_2026_def one_hour_before_def utc_instant_def
      hours_us_def)

subsection \<open>The selector chains\<close>

lemma extract_text_loop_skip:
  "\<forall>u. \<not> yields_text tweet selector u \<Longrightarrow>
   extract_text_loop (selector # rest) tweet = extract_text_loop rest tweet"
  by (auto simp: yields_text_def split: sum.splits option.splits)

lemma extract_text_loop_hit:
  "yields_text tweet selector v \<Longrightarrow> extract_text_loop (selector # rest) tweet = Some v"
  by (auto simp: yields_text_def strip_Nil split: sum.splits option.splits)

lemma extract_text_loop_first:
  "\<forall>s\<in>set pre. \<forall>u. \<not> yields_text tweet s u \<Longrightarrow> yields_text tweet selector v \<Longrightarrow>
   extract_text_loop (pre @ selector # post) tweet = Some v"
  by (induction pre)
     (simp_all add: extract_text_loop_skip extract_text_loop_hit del: extract_text_loop.simps)

lemma extract_text_loop_none:
  "\<forall>s\<in>set chain. \<forall>u. \<not> yields_text tweet s u \<Longrightarrow> extract_text_loop chain tweet = None"
  by (induction chain) (simp_all add: extract_text_loop_skip del: extract_text_loop.simps(2))

text \<open>
  C6. \<open>extract_text\<close> goes through the chain in order and returns the trimmed text of
  the first selector that yields a text of more than 5 characters after trimming: the
  selectors before it that yield nothing (no match, a text too short, or a lookup that
  raises) are passed over. When no selector of the chain yields, it returns no value.
\<close>

theorem extract_text_first_yield:
  "(TWEET_TEXT = pre @ selector # post \<and> (\<forall>s\<in>set pre. \<forall>u. \<not> yields_text tweet s u)
      \<and> yields_text tweet selector v \<longrightarrow> extract_text tweet = Some v)
   \<and> ((\<forall>s\<in>set TWEET_TEXT. \<forall>u. \<not> yields_text tweet s u) \<longrightarrow> extract_text tweet = None)"
proof (intro conjI impI)
  assume "TWEET_TEXT = pre @ selector # post \<and> (\<forall>s\<in>set pre. \<forall>u. \<not> yields_text tweet s u)
      \<and> yields_text tweet selector v"
  then show "extract_text tweet = Some v"
    unfolding extract_text_def by (metis extract_text_loop_first)
next
  assume "\<forall>s\<in>set TWEET_TEXT. \<forall>u. \<not> yields_text tweet s u"
  then show "extract_text tweet = None"
    unfolding extract_text_def by (rule extract_text_loop_none)
qed

text \<open>Only the second selector matches, after the first raised: its text is returned.\<close>

theorem extract_text_first_yield_witness:
  "TWEET_TEXT = [TWEET_TEXT ! 0] @ ''div[lang]'' # []
   \<and> yields_text second_only_tweet ''div[lang]'' ''need a developer''
   \<and> extract_text second_only_tweet = Some ''need a developer''"
proof -
  have a: "TWEET_TEXT = [TWEET_TEXT ! 0] @ ''div[lang]'' # []"
    by (simp add: TWEET_TEXT_def)
  have s: "strip ''  need a developer  '' = ''need a developer''"
    by code_simp
  have y: "yields_text second_only_tweet ''div[lang]'' ''need a developer''"
    unfolding yields_text_def second_only_tweet_def
    by (intro exI [where x = "Element (Inr ''  need a developer  '') (\<lambda>a. Inr None)"]
          exI [where x = "''  need a developer  ''"])
       (simp add: s)
  have n: "\<forall>s\<in>set [TWEET_TEXT ! 0]. \<forall>u. \<not> yields_text second_only_tweet s u"
    by (simp add: yields_text_def second_only_tweet_def TWEET_TEXT_def)
  show ?thesis
    using extract_text_first_yield [of "[TWEET_TEXT ! 0]" "''div[lang]''" "[]"
        second_only_tweet "''need a developer''"] a y n
    by blast
qed

lemma extract_author_loop_exhausted:
  "\<forall>s\<in>set chain. \<not> has_href tweet s \<Longrightarrow> extract_author_loop chain tweet = ''Unknown''"
  by (induction chain) (auto simp: has_href_def split: sum.splits option.splits)

lemma extract_time_loop_exhausted:
  "\<forall>s\<in>set chain. \<not> yields_time fromisoformat tweet s \<Longrightarrow>
   extract_time_loop fromisoformat now chain tweet = datetime_now now None"
  by (induction chain) (auto simp: yields_time_def split: sum.splits option.splits)

text \<open>A selector that yields an author in the specification's sense passes the program's test.\<close>

lemma author_value_has_href: "author_value tweet selector = Some v \<Longrightarrow> has_href tweet selector"
  by (auto simp: author_value_def has_href_def Let_def strip_chars_def
      split: sum.splits option.splits if_splits)

text \<open>
  C8, as the program has it. When no author selector finds an element whose reference is
  not empty (no match, no reference, an empty one, or a lookup that raises),
  \<open>extract_author\<close> returns "Unknown"; when no timestamp selector yields a date that
  parses, \<open>extract_time\<close> returns the clock's reading at the extraction; neither raises
  (both are total functions into plain values).
\<close>

theorem defaults_when_exhausted:
  "((\<forall>s\<in>set AUTHOR. \<not> has_href tweet s) \<longrightarrow> extract_author tweet = ''Unknown'')
   \<and> ((\<forall>s\<in>set TIMESTAMP. \<not> yields_time fromisoformat tweet s)
        \<longrightarrow> extract_time fromisoformat now tweet = datetime_now now None)"
  by (simp add: extract_author_def extract_time_def extract_author_loop_exhausted
      extract_time_loop_exhausted)

text \<open>
  A post element whose author link raises and whose date does not parse: the defaults.
\<close>

theorem defaults_when_exhausted_witness:
  "extract_author bare_tweet = ''Unknown''
   \<and> extract_time demo_fromisoformat new_year_2026 bare_tweet = datetime_now new_year_2026 None"
proof -
  have a: "\<forall>s\<in>set AUTHOR. \<not> has_href bare_tweet s"
    by (simp add: AUTHOR_def has_href_def bare_tweet_def)
  have r: "replace_Z ''yesterday'' = ''yesterday''"
    by code_simp
  have p: "demo_fromisoformat ''yesterday'' = None"
    by code_simp
  have t: "\<forall>s\<in>set TIMESTAMP. \<not> yields_time demo_fromisoformat bare_tweet s"
    by (auto simp: TIMESTAMP_def yields_time_def bare_tweet_def attribute_def r p
        split: if_splits)
  show ?thesis
    using defaults_when_exhausted [of bare_tweet demo_fromisoformat new_year_2026] a t
    by blast
qed

text \<open>
  The claim as the specification states it, with the author's value being the token
  derived from the reference, fails: for a first author link that refers to the root of
  the site (\<^verbatim>\<open>/\<close>), neither selector of the chain yields a token that is not empty,
  and \<open>extract_author\<close> returns the empty string, not "Unknown".
\<close>

theorem author_of_root_link_counterexample:
  "AUTHOR = [AUTHOR ! 0, AUTHOR ! 1]
   \<and> author_value slash_tweet (AUTHOR ! 0) = None
   \<and> author_value slash_tweet (AUTHOR ! 1) = None
   \<and> extract_author slash_tweet = []"
  by code_simp

subsection \<open>The source URL and the identifier\<close>

lemma tweet_id_takeWhile:
  "hd (py_split ''/'' (hd (py_split ''?'' s)))
     = takeWhile (\<lambda>c. c \<noteq> CHR ''?'' \<and> c \<noteq> CHR ''/'') s"
  by (simp add: py_split_single_char_hd takeWhile_twice)

lemma process_tweet_rejects:
  "fst (extract_url tweet) = None \<or> snd (extract_url tweet) = None
     \<or> snd (extract_url tweet) = Some []
   \<Longrightarrow> process_tweet cfg fromisoformat clocks tweet = Inr None"
  by (cases "extract_url tweet") (auto simp: process_tweet_def Let_def split: option.splits)

text \<open>
  C7. When the status link is found and its reference holds the marker \<^verbatim>\<open>/status/\<close>,
  \<open>extract_url\<close> returns the reference prefixed with the site's origin, and as the
  identifier what follows the marker (the occurrence after which no other begins) up to
  the next slash or question mark. In every other case it returns no URL and no
  identifier. A post element without URL, without identifier or with an empty identifier
  is rejected by \<open>process_tweet\<close>.
\<close>

theorem extract_url_spec:
  "(query_selector tweet STATUS_LINK = Inr (Some link)
      \<and> get_attribute link ''href'' = Inr (Some href) \<and> sublist ''/status/'' href
     \<longrightarrow> (\<exists>pre rest. href = pre @ ''/status/'' @ rest \<and> \<not> sublist ''/status/'' rest
           \<and> extract_url tweet =
               (Some (''https://x.com'' @ href),
                Some (takeWhile (\<lambda>c. c \<noteq> CHR ''?'' \<and> c \<noteq> CHR ''/'') rest))))
   \<and> ((\<forall>link href. query_selector tweet STATUS_LINK = Inr (Some link)
          \<longrightarrow> get_attribute link ''href'' = Inr (Some href) \<longrightarrow> \<not> sublist ''/status/'' href)
        \<longrightarrow> extract_url tweet = (None, None))
   \<and> (fst (extract_url tweet) = None \<or> snd (extract_url tweet) = None
         \<or> snd (extract_url tweet) = Some []
        \<longrightarrow> process_tweet cfg fromisoformat clocks tweet = Inr None)"
proof (intro conjI impI)
  assume a: "query_selector tweet STATUS_LINK = Inr (Some link)
      \<and> get_attribute link ''href'' = Inr (Some href) \<and> sublist ''/status/'' href"
  let ?rest = "last (py_split ''/status/'' href)"
  from a have sub: "sublist ''/status/'' href"
    by simp
  have ne: "''/status/'' \<noteq> []"
    by simp
  obtain pre where pre: "href = pre @ ''/status/'' @ ?rest"
    using py_split_last_after(1) [OF ne sub] by blast
  have nosub: "\<not> sublist ''/status/'' ?rest"
    using py_split_last_after(2) [OF ne sub] .
  from sub have "href \<noteq> []"
    by auto
  with a have "extract_url tweet =
      (Some (''https://x.com'' @ href),
       Some (takeWhile (\<lambda>c. c \<noteq> CHR ''?'' \<and> c \<noteq> CHR ''/'') ?rest))"
    by (simp add: extract_url_def Let_def tweet_id_takeWhile)
  with pre nosub
  show "\<exists>pre rest. href = pre @ ''/status/'' @ rest \<and> \<not> sublist ''/status/'' rest
           \<and> extract_url tweet =
               (Some (''https://x.com'' @ href),
                Some (takeWhile (\<lambda>c. c \<noteq> CHR ''?'' \<and> c \<noteq> CHR ''/'') rest))"
    by blast
next
  assume "\<forall>link href. query_selector tweet STATUS_LINK = Inr (Some link)
          \<longrightarrow> get_attribute link ''href'' = Inr (Some href) \<longrightarrow> \<not> sublist ''/status/'' href"
  then show "extract_url tweet = (None, None)"
    by (auto simp: extract_url_def Let_def split: sum.splits option.splits)
next
  assume "fst (extract_url tweet) = None \<or> snd (extract_url tweet) = None
         \<or> snd (extract_url tweet) = Some []"
  then show "process_tweet cfg fromisoformat clocks tweet = Inr None"
    by (rule process_tweet_rejects)
qed

text \<open>
  The reference \<^verbatim>\<open>/alice/status/12345?s=20\<close> gives the identifier 12345; a post
  element without a status link is rejected.
\<close>

theorem extract_url_spec_witness:
  "query_selector fresh_tweet STATUS_LINK
     = Inr (Some (attribute ''href'' ''/alice/status/12345?s=20''))
   \<and> sublist ''/status/'' ''/alice/status/12345?s=20''
   \<and> extract_url fresh_tweet = (Some ''https://x.com/alice/status/12345?s=20'', Some ''12345'')
   \<and> fst (extract_url unlinked_tweet) = None
   \<and> process_tweet demo_config demo_fromisoformat (new_year_2026, new_year_2026) unlinked_tweet
       = Inr None"
proof -
  have q: "query_selector fresh_tweet STATUS_LINK
     = Inr (Some (attribute ''href'' ''/alice/status/12345?s=20''))"
    by (simp add: fresh_tweet_def demo_tweet_def STATUS_LINK_def)
  have g: "get_attribute (attribute ''href'' ''/alice/status/12345?s=20'') ''href''
     = Inr (Some ''/alice/status/12345?s=20'')"
    by (simp add: attribute_def)
  have s: "sublist ''/status/'' ''/alice/status/12345?s=20''"
    by code_simp
  have e: "extract_url fresh_tweet
     = (Some ''https://x.com/alice/status/12345?s=20'', Some ''12345'')"
    by code_simp
  have u: "fst (extract_url unlinked_tweet) = None"
    by code_simp
  show ?thesis
    using extract_url_spec [of fresh_tweet "attribute ''href'' ''/alice/status/12345?s=20''"
        "''/alice/status/12345?s=20''"]
      extract_url_spec [of unlinked_tweet _ _ demo_config demo_fromisoformat
        "(new_year_2026, new_year_2026)"] q g s e u
    by blast
qed

subsection \<open>Required fields\<close>

lemma process_tweet_required:
  "process_tweet cfg fromisoformat clocks tweet = Inr (Some r) \<Longrightarrow> required_fields r"
  by (auto simp: process_tweet_def required_fields_def Let_def
      split: option.splits sum.splits if_splits prod.splits)

lemma process_tweets_required:
  "list_all required_fields results \<Longrightarrow>
   list_all required_fields (fst (process_tweets cfg fromisoformat clk idx tweets results lg))"
proof (induction tweets arbitrary: idx results lg)
  case Nil
  then show ?case by simp
next
  case (Cons t ts)
  show ?case
  proof (cases "process_tweet cfg fromisoformat (clk idx) t")
    case (Inl e)
    then show ?thesis using Cons by simp
  next
    case (Inr v)
    show ?thesis
    proof (cases v)
      case None
      then show ?thesis using Inr Cons by simp
    next
      case (Some r)
      then have "required_fields r"
        using Inr process_tweet_required by blast
      then show ?thesis using Inr Some Cons by simp
    qed
  qed
qed

lemma scrape_try_results:
  "fst (scrape_try cfg fromisoformat pg url) = []
   \<or> (\<exists>lg. fst (scrape_try cfg fromisoformat pg url)
          = fst (process_tweets cfg fromisoformat (clock pg) 0
                  (py_take (MAX_RESULTS cfg) (find_tweets pg TWEET_CONTAINERS)) [] lg))"
  by (auto simp: scrape_try_def Let_def case_prod_beta split: option.splits)

lemma scrape_try_required:
  "list_all required_fields (fst (scrape_try cfg fromisoformat pg url))"
proof -
  have "list_all required_fields (fst (process_tweets cfg fromisoformat clk idx tweets [] lg))"
    for clk idx tweets lg
    by (rule process_tweets_required) simp
  then show ?thesis
    using scrape_try_results [of cfg fromisoformat pg url] by auto
qed

lemma scrape_search_fst:
  "fst (scrape_search cfg fromisoformat pg query)
     = fst (scrape_try cfg fromisoformat pg (search_url_of query))"
  by (simp add: scrape_search_def Let_def case_prod_beta split: ending.splits)

lemma scrape_search_required:
  "list_all required_fields (fst (scrape_search cfg fromisoformat pg query))"
  by (simp add: scrape_search_fst scrape_try_required)

subsection \<open>Deduplication\<close>




lemma deduplicate_loop_subset: "set (deduplicate_loop seen rs) \<subseteq> set rs"
  by (induction rs arbitrary: seen) auto

lemma deduplicate_subset: "set (deduplicate rs) \<subseteq> set rs"
  by (simp add: deduplicate_def deduplicate_loop_subset)




subsection \<open>The run\<close>



lemma per_query_required:
  "list_all required_fields (concat (map fst (per_query cfg fromisoformat w idx qs)))"
  by (induction qs arbitrary: idx) (simp_all add: scrape_search_required)

lemma run_queries_results:
  "fst (run_queries cfg fromisoformat w idx n qs all_results lg)
     = all_results @ concat (map fst (per_query cfg fromisoformat w idx qs))"
  by (induction qs arbitrary: idx all_results lg) (simp_all add: case_prod_beta)





lemma browser_session_required:
  assumes "snd (browser_session cfg fromisoformat w) = Inr rs"
  shows "list_all required_fields rs"
proof -
  from assms
  have "rs = deduplicate (fst (run_queries cfg fromisoformat w 1 (length SEARCH_QUERIES)
       SEARCH_QUERIES [] [(INFO, Browser_launched), (INFO, Cookies_added), (INFO, Stealth_applied)]))"
    by (auto simp: browser_session_def Let_def case_prod_beta split: option.splits)
  then have "rs = deduplicate (concat (map fst (per_query cfg fromisoformat w 1 SEARCH_QUERIES)))"
    by (simp only: run_queries_results append_Nil)
  then have "set rs \<subseteq> set (concat (map fst (per_query cfg fromisoformat w 1 SEARCH_QUERIES)))"
    by (simp only: deduplicate_subset)
  then show ?thesis
    using per_query_required [of cfg fromisoformat w 1 SEARCH_QUERIES]
    unfolding list_all_iff by blast
qed

text \<open>How \<open>main\<close> ends, by the way it is left.\<close>

lemma main_outcomes:
  "main cfg fromisoformat w = \<lparr>printed = [[]], logged = logged (main cfg fromisoformat w), ended = Inr 1\<rparr>
   \<or> (\<exists>e. main cfg fromisoformat w = \<lparr>printed = [], logged = [], ended = Inl e\<rparr>)
   \<or> main cfg fromisoformat w = \<lparr>printed = [[]], logged = [(WARN, Twitter_disabled)], ended = Inr 0\<rparr>
   \<or> (\<exists>rs. snd (browser_session cfg fromisoformat w) = Inr rs
        \<and> main cfg fromisoformat w
            = \<lparr>printed = [rs], logged = logged (main cfg fromisoformat w), ended = Inr 0\<rparr>)"
proof (cases "\<not> TWITTER_ENABLED cfg \<or> TWITTER_COOKIES_PATH cfg = []")
  case True
  then show ?thesis by (auto simp: main_def)
next
  case False
  show ?thesis
  proof (cases "load_cookies_from_file (file_at w) (TWITTER_COOKIES_PATH cfg)")
    case (Inl e)
    then show ?thesis using False by (cases e) (simp_all add: main_def)
  next
    case (Inr cookies)
    obtain blog res where bs: "browser_session cfg fromisoformat w = (blog, res)"
      by (cases "browser_session cfg fromisoformat w")
    show ?thesis
      using False Inr bs by (cases res) (simp_all add: main_def)
  qed
qed

lemma program_outcomes:
  "(stdout (program cfg fromisoformat w) = [[]] \<and> exit_status (program cfg fromisoformat w) = 1)
   \<or> (stdout (program cfg fromisoformat w) = [[]] \<and> exit_status (program cfg fromisoformat w) = 0)
   \<or> (\<exists>rs. snd (browser_session cfg fromisoformat w) = Inr rs
         \<and> stdout (program cfg fromisoformat w) = [rs]
         \<and> exit_status (program cfg fromisoformat w) = 0)"
proof -
  let ?m = "main cfg fromisoformat w"
  from main_outcomes [of cfg fromisoformat w]
  consider "printed ?m = [[]]" "ended ?m = Inr 1"
    | e where "printed ?m = []" "ended ?m = Inl e"
    | "printed ?m = [[]]" "ended ?m = Inr 0"
    | rs where "snd (browser_session cfg fromisoformat w) = Inr rs" "printed ?m = [rs]"
        "ended ?m = Inr 0"
    by (metis run.select_convs(1) run.select_convs(3))
  then show ?thesis
    by cases (simp_all add: program_def)
qed




lemma program_required:
  assumes "rs \<in> set (stdout (program cfg fromisoformat w))"
  shows "list_all required_fields rs"
proof -
  have "rs = [] \<or> snd (browser_session cfg fromisoformat w) = Inr rs"
    using assms program_outcomes [of cfg fromisoformat w] by auto
  then show ?thesis
    using browser_session_required by auto
qed


text \<open>
  C3. Every record that \<open>scrape_search\<close> returns, and so every record of the document
  the program prints, has an identifier, a source URL and a content that are not empty;
  a post element whose content, URL or identifier cannot be extracted gives no record.
\<close>

theorem results_have_required_fields:
  "(\<forall>r\<in>set (fst (scrape_search cfg fromisoformat pg query)). required_fields r)
   \<and> (\<forall>rs\<in>set (stdout (program cfg fromisoformat w)). \<forall>r\<in>set rs. required_fields r)
   \<and> (extract_text tweet = None \<or> fst (extract_url tweet) = None
         \<or> snd (extract_url tweet) = None
        \<longrightarrow> process_tweet cfg fromisoformat clocks tweet = Inr None)"
proof (intro conjI impI)
  show "\<forall>r\<in>set (fst (scrape_search cfg fromisoformat pg query)). required_fields r"
    using scrape_search_required [of cfg fromisoformat pg query] by (simp add: list_all_iff)
  show "\<forall>rs\<in>set (stdout (program cfg fromisoformat w)). \<forall>r\<in>set rs. required_fields r"
    using program_required [of _ cfg fromisoformat w] by (auto simp: list_all_iff)
  assume "extract_text tweet = None \<or> fst (extract_url tweet) = None
            \<or> snd (extract_url tweet) = None"
  then show "process_tweet cfg fromisoformat clocks tweet = Inr None"
  proof
    assume "extract_text tweet = None"
    then show ?thesis by (simp add: process_tweet_def)
  next
    assume "fst (extract_url tweet) = None \<or> snd (extract_url tweet) = None"
    then show ?thesis using process_tweet_rejects by blast
  qed
qed

text \<open>
  A query that finds three post elements, one without identifier, one older than the
  window and one that passes, returns exactly one record, with its required fields.
\<close>

theorem results_have_required_fields_witness:
  "fst (scrape_search demo_config demo_fromisoformat three_tweets_page ''need developer'')
     = [fresh_record]
   \<and> required_fields fresh_record
   \<and> snd (extract_url unlinked_tweet) = None
   \<and> process_tweet demo_config demo_fromisoformat (new_year_2026, new_year_2026) unlinked_tweet
       = Inr None"
proof -
  have e: "fst (scrape_search demo_config demo_fromisoformat three_tweets_page ''need developer'')
     = [fresh_record]"
    by code_simp
  have u: "snd (extract_url unlinked_tweet) = None"
    by code_simp
  show ?thesis
    using results_have_required_fields [of demo_config demo_fromisoformat three_tweets_page
        "''need developer''" demo_world unlinked_tweet "(new_year_2026, new_year_2026)"] e u
    by simp
qed

subsection \<open>A failing query\<close>






subsection \<open>A failing run\<close>

lemma script_loaded:
  "load_module int_of_str env = Inr cfg \<Longrightarrow>
   script int_of_str fromisoformat env w = program cfg fromisoformat w"
  by (simp add: script_def)






lemma program_disabled:
  "\<not> TWITTER_ENABLED cfg \<Longrightarrow>
   program cfg fromisoformat w
     = \<lparr>stdout = [[]], stderr = [(WARN, Twitter_disabled)], exit_status = 0\<rparr>"
  by (simp add: program_def main_def)





subsection \<open>The enable flag\<close>

lemma not_enabled:
  "\<not> (\<exists>v. TWITTER_ENABLED_env cfg = Some v \<and> lower v = ''true'') \<Longrightarrow> \<not> TWITTER_ENABLED cfg"
  by (cases "TWITTER_ENABLED_env cfg")
     (auto simp: TWITTER_ENABLED_def lower_def lower_char_def is_upper_def)

text \<open>
  C10, as the program has it. When \<^verbatim>\<open>int\<close> accepts both numeric settings (or their
  defaults) and the variable \<^verbatim>\<open>TWITTER_ENABLED\<close> is not set to a value that is "true" up
  to letter case, the program prints the empty list, logs after its banner only that it
  is disabled, and exits with status 0, whatever the world holds: no browser is launched
  and no query is run. When \<^verbatim>\<open>int\<close> rejects one of the two settings, the program
  prints nothing and exits with status 1, whatever the flag.
\<close>

theorem disabled_flag_output:
  "(int_of_str (getenv env ''TWITTER_SEARCH_HOURS'' ''24'') = Some hours
      \<and> int_of_str (getenv env ''TWITTER_MAX_RESULTS'' ''20'') = Some results
      \<and> \<not> (\<exists>v. env ''TWITTER_ENABLED'' = Some v \<and> lower v = ''true'')
     \<longrightarrow> script int_of_str fromisoformat env w
           = \<lparr>stdout = [[]], stderr = [(WARN, Twitter_disabled)], exit_status = 0\<rparr>
         \<and> (INFO, Launching_browser) \<notin> set (stderr (script int_of_str fromisoformat env w))
         \<and> (\<forall>q. (INFO, Starting_query q)
                  \<notin> set (stderr (script int_of_str fromisoformat env w))))
   \<and> (int_of_str (getenv env ''TWITTER_SEARCH_HOURS'' ''24'') = None
        \<or> int_of_str (getenv env ''TWITTER_MAX_RESULTS'' ''20'') = None
     \<longrightarrow> script int_of_str fromisoformat env w
           = \<lparr>stdout = [], stderr = [], exit_status = 1\<rparr>)"
proof (intro conjI impI)
  assume a: "int_of_str (getenv env ''TWITTER_SEARCH_HOURS'' ''24'') = Some hours
      \<and> int_of_str (getenv env ''TWITTER_MAX_RESULTS'' ''20'') = Some results
      \<and> \<not> (\<exists>v. env ''TWITTER_ENABLED'' = Some v \<and> lower v = ''true'')"
  let ?cfg = "\<lparr>TWITTER_ENABLED_env = env ''TWITTER_ENABLED'',
               TWITTER_COOKIES_PATH = getenv env ''TWITTER_COOKIES_PATH'' [],
               MAX_HOURS_OLD = hours, MAX_RESULTS = results\<rparr>"
  have l: "load_module int_of_str env = Inr ?cfg"
    using a by (simp add: load_module_def)
  have "\<not> TWITTER_ENABLED ?cfg"
    using a by (intro not_enabled) simp
  then have s: "script int_of_str fromisoformat env w
           = \<lparr>stdout = [[]], stderr = [(WARN, Twitter_disabled)], exit_status = 0\<rparr>"
    by (simp add: script_loaded [OF l] program_disabled)
  show "script int_of_str fromisoformat env w
           = \<lparr>stdout = [[]], stderr = [(WARN, Twitter_disabled)], exit_status = 0\<rparr>"
    by (rule s)
  show "(INFO, Launching_browser) \<notin> set (stderr (script int_of_str fromisoformat env w))"
    by (simp add: s)
  show "\<forall>q. (INFO, Starting_query q) \<notin> set (stderr (script int_of_str fromisoformat env w))"
    by (simp add: s)
next
  assume "int_of_str (getenv env ''TWITTER_SEARCH_HOURS'' ''24'') = None
        \<or> int_of_str (getenv env ''TWITTER_MAX_RESULTS'' ''20'') = None"
  then show "script int_of_str fromisoformat env w
           = \<lparr>stdout = [], stderr = [], exit_status = 1\<rparr>"
    by (auto simp: script_def load_module_def split: option.splits)
qed

text \<open>With no variable set, the defaults parse and the default "false" applies.\<close>

theorem disabled_flag_output_witness:
  "decimal_int (getenv empty_env ''TWITTER_SEARCH_HOURS'' ''24'') = Some 24
   \<and> decimal_int (getenv empty_env ''TWITTER_MAX_RESULTS'' ''20'') = Some 20
   \<and> empty_env ''TWITTER_ENABLED'' = None
   \<and> script decimal_int demo_fromisoformat empty_env demo_world
       = \<lparr>stdout = [[]], stderr = [(WARN, Twitter_disabled)], exit_status = 0\<rparr>
   \<and> decimal_int (getenv env_24h ''TWITTER_SEARCH_HOURS'' ''24'') = None
   \<and> script decimal_int demo_fromisoformat env_24h demo_world
       = \<lparr>stdout = [], stderr = [], exit_status = 1\<rparr>"
proof -
  have h: "decimal_int (getenv empty_env ''TWITTER_SEARCH_HOURS'' ''24'') = Some 24"
    by code_simp
  have m: "decimal_int (getenv empty_env ''TWITTER_MAX_RESULTS'' ''20'') = Some 20"
    by code_simp
  have n: "empty_env ''TWITTER_ENABLED'' = None"
    by (simp add: empty_env_def)
  have b: "decimal_int (getenv env_24h ''TWITTER_SEARCH_HOURS'' ''24'') = None"
    by code_simp
  show ?thesis
    using disabled_flag_output [of decimal_int empty_env 24 20 demo_fromisoformat demo_world]
      disabled_flag_output [of decimal_int env_24h _ _ demo_fromisoformat demo_world] h m n b
    by simp
qed

text \<open>
  The claim as stated, for every environment in which the flag is not "true", fails: with
  the flag not set and \<^verbatim>\<open>TWITTER_SEARCH_HOURS=24h\<close> the module stops at line 24, so
  that nothing is on stdout and the status is 1.
\<close>

theorem unparsed_setting_counterexample:
  "env_24h ''TWITTER_ENABLED'' = None
   \<and> env_24h ''TWITTER_SEARCH_HOURS'' = Some ''24h''
   \<and> decimal_int ''24h'' = None
   \<and> stdout (script decimal_int demo_fromisoformat env_24h demo_world) = []
   \<and> exit_status (script decimal_int demo_fromisoformat env_24h demo_world) = 1"
  by code_simp

end
